theory Spec2Isabelle
  imports Complex_Main "HOL-Library.AList"
begin

section \<open>Conventions of the embedding\<close>

text \<open>
  The development embeds the live trading path of the repository:
  \<^verbatim>\<open>config.py\<close>, \<^verbatim>\<open>websocket_manager.py\<close>, \<^verbatim>\<open>arbitrage_bot/telegram_monitor.py\<close>,
  \<^verbatim>\<open>advanced_test_bot.py\<close> and \<^verbatim>\<open>order_manager.py\<close>.

  \<^item> Python \<^verbatim>\<open>float\<close> values (prices, spreads, quantities, P&L) are modelled as
    \<^typ>\<open>real\<close>: comparisons are exact, rounding of the arithmetic is not modelled.
  \<^item> Python \<^verbatim>\<open>int\<close> values are \<^typ>\<open>int\<close>, or \<^typ>\<open>nat\<close> where they are counts or clock
    readings.
  \<^item> A \<^verbatim>\<open>dict\<close> whose size or order matters is an association list in insertion
    order, assigned with \<^const>\<open>AList.update\<close> and read with \<^const>\<open>map_of\<close>.
  \<^item> A value that Python tests for truthiness (\<^verbatim>\<open>if order\<close>, \<^verbatim>\<open>if not price\<close>) is an
    \<^typ>\<open>'a option\<close>; \<^const>\<open>None\<close> stands for \<^verbatim>\<open>None\<close> and for an empty dict, and a price
    \<^verbatim>\<open>0.0\<close>, which is false too, is tested where the source tests it.
  \<^item> What the venues answer (tickers, orders, cancellations) is a parameter of each
    function; what is sent to them is recorded in a log of requests.
\<close>

section \<open>config.py\<close>

definition LEVERAGE :: real where "LEVERAGE = 3"
definition MAX_CONCURRENT_TRADES :: nat where "MAX_CONCURRENT_TRADES = 3"
definition MIN_SPREAD :: real where "MIN_SPREAD = 3.0"
definition MAX_MIN_NOTIONAL_USD :: real where "MAX_MIN_NOTIONAL_USD = 4.0"
definition TRADE_AMOUNT :: real where "TRADE_AMOUNT = 1.0"
definition CLOSE_SPREAD :: real where "CLOSE_SPREAD = 0.5"
definition MAX_ALLOWED_SPREAD :: real where "MAX_ALLOWED_SPREAD = 50.0"
definition SPREAD_SANITY_CHECK :: bool where "SPREAD_SANITY_CHECK = True"
definition TRAILING_STOP_ENABLED :: bool where "TRAILING_STOP_ENABLED = True"
definition MAX_HOLD_TIME :: real where "MAX_HOLD_TIME = 6000"
definition MAX_DAILY_LOSS :: real where "MAX_DAILY_LOSS = 8.0"
definition RISKY_SYMBOLS :: "(string \<times> real) list" where
  "RISKY_SYMBOLS = [(''0G'', 0.5), (''XNL'', 0.3), (''MET'', 0.7), (''PIGGY'', 0.6)]"
definition SYMBOL_BLACKLIST :: "string set" where "SYMBOL_BLACKLIST = {''AIA''}"

section \<open>websocket_manager.py\<close>

text \<open>The cache \<^verbatim>\<open>self.prices\<close>: symbol, then exchange id, then the last price. It holds
  a bare number for each pair; no time of update is stored with it.\<close>

type_synonym price_cache = "string \<rightharpoonup> (string \<rightharpoonup> real)"

text \<open>Lines 95 to 97 of \<^verbatim>\<open>_watch_ticker_loop\<close>: create the inner dict on first use, then
  overwrite the entry of the exchange.\<close>

definition store_price :: "price_cache \<Rightarrow> string \<Rightarrow> string \<Rightarrow> real \<Rightarrow> price_cache" where
  "store_price prices symbol exchange_id price =
     (let inner = (case prices symbol of None \<Rightarrow> Map.empty | Some d \<Rightarrow> d)
      in prices(symbol \<mapsto> inner(exchange_id \<mapsto> price)))"


text \<open>One pass through the body of \<^verbatim>\<open>while self._is_running\<close> ends in one of three ways:
  \<^verbatim>\<open>watch_ticker\<close> returned a ticker (whose \<^verbatim>\<open>last\<close> may be \<^verbatim>\<open>None\<close>), it raised one of
  \<^verbatim>\<open>NetworkError\<close>, \<^verbatim>\<open>RequestTimeout\<close>, \<^verbatim>\<open>ExchangeNotAvailable\<close>, or it raised any other
  \<^verbatim>\<open>Exception\<close>.\<close>

datatype tick_outcome = Ticker "real option" | TransientFailure | OtherFailure

text \<open>The loop's variables: the shared cache, the local \<^verbatim>\<open>retry_delay\<close>, and the arguments
  of the \<^verbatim>\<open>asyncio.sleep\<close> calls made so far, oldest first.\<close>

record loop_state =
  cache :: price_cache
  retry_delay :: int
  sleeps :: "int list"

fun watch_step :: "string \<Rightarrow> string \<Rightarrow> loop_state \<Rightarrow> tick_outcome \<Rightarrow> loop_state" where
  "watch_step exchange_id symbol s (Ticker lastp) =
     s\<lparr>cache := (case lastp of None \<Rightarrow> cache s
                  | Some price \<Rightarrow> store_price (cache s) symbol exchange_id price),
       retry_delay := 1\<rparr>"
| "watch_step exchange_id symbol s TransientFailure =
     s\<lparr>sleeps := sleeps s @ [retry_delay s], retry_delay := min (retry_delay s * 2) 8\<rparr>"
| "watch_step exchange_id symbol s OtherFailure =
     s\<lparr>sleeps := sleeps s @ [retry_delay s], retry_delay := min (retry_delay s * 2) 8\<rparr>"

text \<open>\<^verbatim>\<open>_watch_ticker_loop\<close> from its start (\<^verbatim>\<open>retry_delay = 1\<close>) over the outcomes of the
  passes made while \<^verbatim>\<open>_is_running\<close> held.\<close>

definition watch_ticker_loop ::
  "string \<Rightarrow> string \<Rightarrow> price_cache \<Rightarrow> tick_outcome list \<Rightarrow> loop_state" where
  "watch_ticker_loop exchange_id symbol prices outcomes =
     foldl (watch_step exchange_id symbol)
       \<lparr>cache = prices, retry_delay = 1, sleeps = []\<rparr> outcomes"






section \<open>arbitrage_bot/telegram_monitor.py\<close>

text \<open>Messages are strings of 8-bit characters. \<^verbatim>\<open>upper()\<close> and \<^verbatim>\<open>lower()\<close> change the
  ASCII letters and nothing else; the character classes of the regular expressions are
  the ASCII ones (\<^verbatim>\<open>\d\<close> is \<^verbatim>\<open>0-9\<close>). Python's \<^verbatim>\<open>upper()\<close> also changes letters outside
  ASCII (the sharp s becomes \<^verbatim>\<open>SS\<close>), so the model is that of the parser on ASCII
  messages only.\<close>

definition upper_char :: "char \<Rightarrow> char" where
  "upper_char c =
     (case map_of (zip ''abcdefghijklmnopqrstuvwxyz'' ''ABCDEFGHIJKLMNOPQRSTUVWXYZ'') c of
        Some u \<Rightarrow> u | None \<Rightarrow> c)"

definition lower_char :: "char \<Rightarrow> char" where
  "lower_char c =
     (case map_of (zip ''ABCDEFGHIJKLMNOPQRSTUVWXYZ'' ''abcdefghijklmnopqrstuvwxyz'') c of
        Some l \<Rightarrow> l | None \<Rightarrow> c)"

text \<open>The classes \<^verbatim>\<open>[A-Z]\<close>, \<^verbatim>\<open>[A-Z0-9]\<close>, \<^verbatim>\<open>[\d\.]\<close>, and \<^verbatim>\<open>[A-Z0_9]\<close> as the source
  writes it in the \<^verbatim>\<open>COPY\<close> pattern (the letters, \<^verbatim>\<open>0\<close>, \<^verbatim>\<open>_\<close> and \<^verbatim>\<open>9\<close>).\<close>

definition is_upper :: "char \<Rightarrow> bool" where
  "is_upper c = (c \<in> set ''ABCDEFGHIJKLMNOPQRSTUVWXYZ'')"

definition is_upper_alnum :: "char \<Rightarrow> bool" where
  "is_upper_alnum c = (c \<in> set ''ABCDEFGHIJKLMNOPQRSTUVWXYZ0123456789'')"

definition is_digit_dot :: "char \<Rightarrow> bool" where
  "is_digit_dot c = (c \<in> set ''0123456789.'')"

definition is_copy_char :: "char \<Rightarrow> bool" where
  "is_copy_char c = (c \<in> set ''ABCDEFGHIJKLMNOPQRSTUVWXYZ0_9'')"

fun starts_with :: "string \<Rightarrow> string \<Rightarrow> bool" where
  "starts_with [] s = True"
| "starts_with (p # ps) [] = False"
| "starts_with (p # ps) (c # cs) = (p = c \<and> starts_with ps cs)"

definition strip_prefix :: "string \<Rightarrow> string \<Rightarrow> string option" where
  "strip_prefix p s = (if starts_with p s then Some (drop (length p) s) else None)"

text \<open>\<^verbatim>\<open>needle in haystack\<close>.\<close>

fun contains :: "string \<Rightarrow> string \<Rightarrow> bool" where
  "contains p [] = (p = [])"
| "contains p (c # cs) = (starts_with p (c # cs) \<or> contains p cs)"

text \<open>\<^verbatim>\<open>re.search\<close>: the match of the pattern at the leftmost position where it matches.
  The pattern is given by its match at the start of a string.\<close>

fun search :: "(string \<Rightarrow> 'a option) \<Rightarrow> string \<Rightarrow> 'a option" where
  "search m [] = m []"
| "search m (c # cs) = (case m (c # cs) of Some r \<Rightarrow> Some r | None \<Rightarrow> search m cs)"

text \<open>The four patterns, matched at the start of a string; the result is the group (or the
  two groups). In each of them a greedy repetition is followed by a character outside
  its class, so the longest run is the only one that can match.

  \<^verbatim>\<open>#([A-Z0-9]+)\<close>\<close>

definition match_hash :: "string \<Rightarrow> string option" where
  "match_hash s =
     (case s of
        [] \<Rightarrow> None
      | c # rest \<Rightarrow>
          if c = CHR ''#'' \<and> takeWhile is_upper_alnum rest \<noteq> []
          then Some (takeWhile is_upper_alnum rest) else None)"

text \<open>\<^verbatim>\<open>SPREAD[:]*([\d\.]+)%\<close>\<close>

definition match_spread :: "string \<Rightarrow> string option" where
  "match_spread s =
     (case strip_prefix ''SPREAD'' s of
        None \<Rightarrow> None
      | Some r \<Rightarrow>
          (let r1 = dropWhile (\<lambda>c. c = CHR '':'') r;
               g = takeWhile is_digit_dot r1;
               r2 = dropWhile is_digit_dot r1
           in if g \<noteq> [] \<and> starts_with ''%'' r2 then Some g else None))"

text \<open>\<^verbatim>\<open>\(COPY:([A-Z0_9]+)\)\<close>\<close>

definition match_copy :: "string \<Rightarrow> string option" where
  "match_copy s =
     (case strip_prefix ''(COPY:'' s of
        None \<Rightarrow> None
      | Some r \<Rightarrow>
          (let g = takeWhile is_copy_char r;
               r1 = dropWhile is_copy_char r
           in if g \<noteq> [] \<and> starts_with '')'' r1 then Some g else None))"

text \<open>\<^verbatim>\<open>SHORT([A-Z]+)[:]*\$([\d\.]+)\<close> and \<^verbatim>\<open>LONG([A-Z]+)[:]*\$([\d\.]+)\<close>, by their first
  word.\<close>

definition match_side :: "string \<Rightarrow> string \<Rightarrow> (string \<times> string) option" where
  "match_side word s =
     (case strip_prefix word s of
        None \<Rightarrow> None
      | Some r \<Rightarrow>
          (let exch = takeWhile is_upper r;
               r1 = dropWhile (\<lambda>c. c = CHR '':'') (dropWhile is_upper r)
           in case r1 of
                [] \<Rightarrow> None
              | d # r2 \<Rightarrow>
                  if exch \<noteq> [] \<and> d = CHR ''$'' \<and> takeWhile is_digit_dot r2 \<noteq> []
                  then Some (exch, takeWhile is_digit_dot r2) else None))"

text \<open>\<^verbatim>\<open>float(s)\<close> for a string of digits and dots, which is all the patterns let through:
  \<^verbatim>\<open>ValueError\<close> (\<^const>\<open>None\<close>) for more than one dot or no digit, else the decimal value.\<close>

definition digit_val :: "char \<Rightarrow> nat" where
  "digit_val c = length (takeWhile (\<lambda>d. d \<noteq> c) ''0123456789'')"

definition nat_of_digits :: "string \<Rightarrow> nat" where
  "nat_of_digits s = foldl (\<lambda>a c. 10 * a + digit_val c) 0 s"

definition py_float :: "string \<Rightarrow> real option" where
  "py_float s =
     (let ip = takeWhile (\<lambda>c. c \<noteq> CHR ''.'') s;
          rest = dropWhile (\<lambda>c. c \<noteq> CHR ''.'') s
      in case rest of
           [] \<Rightarrow> if ip = [] then None else Some (real (nat_of_digits ip))
         | dot # fp \<Rightarrow>
             if CHR ''.'' \<in> set fp \<or> (ip = [] \<and> fp = []) then None
             else Some (real (nat_of_digits ip) + real (nat_of_digits fp) / 10 ^ length fp))"

text \<open>\<^verbatim>\<open>s.replace(old, '')\<close> for a non-empty \<open>old\<close>: occurrences are removed left to right
  without overlap; \<open>skip\<close> counts the characters of an occurrence still to be dropped.\<close>

fun remove_from :: "string \<Rightarrow> nat \<Rightarrow> string \<Rightarrow> string" where
  "remove_from old skip [] = []"
| "remove_from old skip (c # cs) =
     (if skip > 0 then remove_from old (skip - 1) cs
      else if starts_with old (c # cs) then remove_from old (length old - 1) cs
      else c # remove_from old 0 cs)"

definition remove_all :: "string \<Rightarrow> string \<Rightarrow> string" where
  "remove_all old s = remove_from old 0 s"

text \<open>\<^verbatim>\<open>_parse_message\<close>. The result is the symbol, the spread and the price dict (the
  long venue is inserted first, then the short venue).\<close>

definition parse_message :: "string \<Rightarrow> (string \<times> real \<times> (string \<times> real) list) option" where
  "parse_message message =
     (let text = filter (\<lambda>c. c \<noteq> CHR '' '') (map upper_char message) in
      case search match_hash text of
        None \<Rightarrow> None
      | Some hash_symbol \<Rightarrow>
          (case search match_spread text of
             None \<Rightarrow> None
           | Some spread_text \<Rightarrow>
               (case py_float spread_text of
                  None \<Rightarrow> None
                | Some spread \<Rightarrow>
                    (let raw_symbol = (case search match_copy text of
                                         Some copy_symbol \<Rightarrow> copy_symbol
                                       | None \<Rightarrow> hash_symbol);
                         symbol = remove_all ''USDT'' (remove_all ''_USDT'' raw_symbol) @ ''-USDT''
                     in case (search (match_side ''SHORT'') text,
                              search (match_side ''LONG'') text) of
                          (Some (short_exch, short_px), Some (long_exch, long_px)) \<Rightarrow>
                            (case (py_float long_px, py_float short_px) of
                               (Some long_price, Some short_price) \<Rightarrow>
                                 (let prices = AList.update (map lower_char short_exch) short_price
                                                 [(map lower_char long_exch, long_price)]
                                  in if length prices \<noteq> 2 then None
                                     else Some (symbol, spread, prices))
                             | _ \<Rightarrow> None)
                        | _ \<Rightarrow> None))))"

section \<open>advanced_test_bot.py\<close>

text \<open>\<^verbatim>\<open>min(prices, key=prices.get)\<close> and \<^verbatim>\<open>max(prices, key=prices.get)\<close> over a dict in
  insertion order: the first key whose value is least (greatest); \<^verbatim>\<open>ValueError\<close> on an
  empty dict is \<^const>\<open>None\<close>.\<close>

fun min_key :: "(string \<times> real) list \<Rightarrow> string option" where
  "min_key [] = None"
| "min_key ((k, v) # rest) =
     (case min_key rest of
        None \<Rightarrow> Some k
      | Some k' \<Rightarrow> (case map_of rest k' of
                      Some v' \<Rightarrow> if v' < v then Some k' else Some k
                    | None \<Rightarrow> Some k))"

fun max_key :: "(string \<times> real) list \<Rightarrow> string option" where
  "max_key [] = None"
| "max_key ((k, v) # rest) =
     (case max_key rest of
        None \<Rightarrow> Some k
      | Some k' \<Rightarrow> (case map_of rest k' of
                      Some v' \<Rightarrow> if v' > v then Some k' else Some k
                    | None \<Rightarrow> Some k))"

text \<open>The arguments of a call \<^verbatim>\<open>open_arbitrage(symbol, spread, low_exch, high_exch,
  low_price, high_price)\<close>.\<close>

record open_request =
  req_symbol :: string
  req_spread :: real
  req_low_exch :: string
  req_high_exch :: string
  req_low_price :: real
  req_high_price :: real

text \<open>\<^verbatim>\<open>handle_signal\<close> up to its call of \<^verbatim>\<open>open_arbitrage\<close>: the two spread gates, then
  the choice of venues inside the \<^verbatim>\<open>try\<close>. The result is the call that is made, or
  \<^const>\<open>None\<close> when the handler returns (or catches an exception) without making it. The
  signal counter and the log line, which come first, do not bear on it.\<close>

definition handle_signal_request ::
  "string \<Rightarrow> real \<Rightarrow> (string \<times> real) list \<Rightarrow> open_request option" where
  "handle_signal_request symbol spread prices =
     (if spread < MIN_SPREAD then None
      else if SPREAD_SANITY_CHECK \<and> spread > MAX_ALLOWED_SPREAD then None
      else (case (min_key prices, max_key prices) of
              (Some low_exch, Some high_exch) \<Rightarrow>
                (case (map_of prices low_exch, map_of prices high_exch) of
                   (Some low_price, Some high_price) \<Rightarrow>
                     Some \<lparr>req_symbol = symbol, req_spread = spread,
                           req_low_exch = low_exch, req_high_exch = high_exch,
                           req_low_price = low_price, req_high_price = high_price\<rparr>
                 | _ \<Rightarrow> None)
            | _ \<Rightarrow> None))"

text \<open>The Telegram handler and \<^verbatim>\<open>handle_signal\<close> together: the callback is called when
  \<^verbatim>\<open>_parse_message\<close> gives a result, with that result.\<close>

definition message_request :: "string \<Rightarrow> open_request option" where
  "message_request message =
     (case parse_message message of
        None \<Rightarrow> None
      | Some (smb, spread, prices) \<Rightarrow> handle_signal_request smb spread prices)"

section \<open>order_manager.py\<close>

text \<open>The exceptions that the modelled code raises itself.\<close>

datatype py_error = NameError | ZeroDivisionError

text \<open>How a coroutine, or a stretch of one, ends: it goes on with a value, it returns,
  or it raises.\<close>

datatype 'a flow = Continue 'a | Return | Raise py_error

text \<open>The dict stored in \<^verbatim>\<open>self.active_trades\<close>. \<^verbatim>\<open>status\<close> is one of the strings
  \<^verbatim>\<open>open\<close>, \<^verbatim>\<open>closing\<close>, \<^verbatim>\<open>error_closing\<close>, \<^verbatim>\<open>closed\<close>; \<^verbatim>\<open>entry_time\<close> is the UTC time
  in seconds; the key \<^verbatim>\<open>net_pnl\<close> is absent (\<^const>\<open>None\<close>) until the P&L is recorded.\<close>

record trade =
  symbol :: string
  entry_spread :: real
  low_exchange :: string
  high_exchange :: string
  entry_buy_price :: real
  entry_sell_price :: real
  quantity :: real
  status :: string
  entry_time :: real
  max_spread_seen :: real
  net_pnl :: "real option"

text \<open>What the code reads of an order returned by the venue, and of a market's limits
  (\<^verbatim>\<open>limits.cost.min\<close>, \<^verbatim>\<open>limits.amount.min\<close>; a missing key or \<^verbatim>\<open>None\<close> is \<^const>\<open>None\<close>).\<close>

record order =
  order_id :: string
  price :: real

record market =
  cost_min :: "real option"
  amount_min :: "real option"

text \<open>A request sent to a venue: \<^verbatim>\<open>create_order(sym, 'limit', side, qty, px, params)\<close> on an
  exchange, where \<^verbatim>\<open>params\<close> is empty or carries a \<^verbatim>\<open>positionSide\<close>, and
  \<^verbatim>\<open>cancel_order(order_id, symbol)\<close> on an exchange.\<close>

datatype venue_request =
    CreateOrder string string string real real "string option"
  | CancelOrder string string string

text \<open>What the venues and the clocks answer during one call: the market of a symbol on
  an exchange and the order a creation returns (\<^const>\<open>None\<close> when the client raises),
  whether a cancellation raises, \<^verbatim>\<open>int(time.time())\<close> and \<^verbatim>\<open>datetime.utcnow()\<close>.\<close>

record venue_env =
  market_reply :: "string \<Rightarrow> string \<Rightarrow> market option"
  create_reply :: "string \<Rightarrow> string \<Rightarrow> string \<Rightarrow> real \<Rightarrow> real \<Rightarrow> order option"
  cancel_raises :: "string \<Rightarrow> string \<Rightarrow> bool"
  unix_time :: nat
  utc_now :: real

text \<open>The \<^verbatim>\<open>OrderManager\<close>: the names of the connected exchanges, the registry, the
  daily P&L; then the requests sent to the venues so far and the trade ids for which a
  \<^verbatim>\<open>monitor_trade\<close> task was created.\<close>

record order_manager =
  exchanges :: "string list"
  active_trades :: "(string \<times> trade) list"
  daily_pnl :: real
  requests :: "venue_request list"
  monitor_tasks :: "string list"

definition get_market_details :: "venue_env \<Rightarrow> order_manager \<Rightarrow> string \<Rightarrow> string \<Rightarrow> market option" where
  "get_market_details env st exchange_name smb =
     (if exchange_name \<notin> set (exchanges st) then None
      else market_reply env exchange_name smb)"

definition create_order ::
  "venue_env \<Rightarrow> order_manager \<Rightarrow> string \<Rightarrow> string \<Rightarrow> string \<Rightarrow> real \<Rightarrow> real \<Rightarrow> string option
     \<Rightarrow> order option \<times> order_manager" where
  "create_order env st ex_name smb side qty px params =
     (if ex_name \<notin> set (exchanges st) then (None, st)
      else (create_reply env ex_name smb side qty px,
            st\<lparr>requests := requests st @ [CreateOrder ex_name smb side qty px params]\<rparr>))"

definition cancel_order ::
  "venue_env \<Rightarrow> order_manager \<Rightarrow> string \<Rightarrow> string \<Rightarrow> string \<Rightarrow> bool \<times> order_manager" where
  "cancel_order env st exchange_name oid smb =
     (if exchange_name \<notin> set (exchanges st) then (False, st)
      else (\<not> cancel_raises env exchange_name oid,
            st\<lparr>requests := requests st @ [CancelOrder exchange_name oid smb]\<rparr>))"

text \<open>\<^verbatim>\<open>x or 0.0\<close> for a limit that may be \<^verbatim>\<open>None\<close>.\<close>

definition or_zero :: "real option \<Rightarrow> real" where
  "or_zero x = (case x of None \<Rightarrow> 0 | Some v \<Rightarrow> v)"

text \<open>Decimal digits of a natural number, for \<^verbatim>\<open>int(time.time())\<close> inside the f-string.\<close>

fun str_nat :: "nat \<Rightarrow> string" where
  "str_nat n =
     (if n < 10 then [''0123456789'' ! n]
      else str_nat (n div 10) @ [''0123456789'' ! (n mod 10)])"

declare str_nat.simps [simp del]

text \<open>\<^verbatim>\<open>f"{symbol.split('-')[0]}-{int(time.time())}"\<close>.\<close>

definition make_trade_id :: "string \<Rightarrow> nat \<Rightarrow> string" where
  "make_trade_id smb t = takeWhile (\<lambda>c. c \<noteq> CHR ''-'') smb @ ''-'' @ str_nat t"

text \<open>Line 151, the admission guard: the code up to the first \<^verbatim>\<open>await\<close>.\<close>

definition admission_refused :: "order_manager \<Rightarrow> string \<Rightarrow> bool" where
  "admission_refused st smb =
     (smb \<in> SYMBOL_BLACKLIST
      \<or> length (active_trades st) \<ge> MAX_CONCURRENT_TRADES
      \<or> daily_pnl st \<le> - MAX_DAILY_LOSS)"

text \<open>Lines 159 to 172, between the two \<^verbatim>\<open>gather\<close> calls: the market checks and the
  quantity. A zero \<^verbatim>\<open>low_price\<close> with no minimum quantity raises \<^verbatim>\<open>ZeroDivisionError\<close>.\<close>

definition entry_quantity :: "market option \<Rightarrow> market option \<Rightarrow> open_request \<Rightarrow> real flow" where
  "entry_quantity low_mkt high_mkt req =
     (case (low_mkt, high_mkt) of
        (Some lm, Some hm) \<Rightarrow>
          (let min_notional = max (or_zero (cost_min lm)) (or_zero (cost_min hm)) in
           if min_notional > MAX_MIN_NOTIONAL_USD then Return
           else
             (let min_qty = max (or_zero (amount_min lm)) (or_zero (amount_min hm)) in
              if \<not> min_qty > 0 \<and> req_low_price req = 0 then Raise ZeroDivisionError
              else
                (let q = (if min_qty > 0 then min_qty
                          else (TRADE_AMOUNT * LEVERAGE) / req_low_price req)
                 in Continue (case map_of RISKY_SYMBOLS (req_symbol req) of
                                Some factor \<Rightarrow> q * factor
                              | None \<Rightarrow> q))))
      | _ \<Rightarrow> Return)"

text \<open>Lines 175 to 181: the two limit orders, created with \<^verbatim>\<open>asyncio.gather\<close>; the buy
  request is started first.\<close>

definition submit_entry_orders ::
  "venue_env \<Rightarrow> order_manager \<Rightarrow> open_request \<Rightarrow> real
     \<Rightarrow> order option \<times> order option \<times> order_manager" where
  "submit_entry_orders env st req qty =
     (let buy_params = (if req_low_exch req = ''mexc'' then Some ''long'' else None);
          sell_params = (if req_high_exch req = ''mexc'' then Some ''short'' else None);
          (buy_order, st1) = create_order env st (req_low_exch req) (req_symbol req) ''buy''
                               qty (req_low_price req) buy_params;
          (sell_order, st2) = create_order env st1 (req_high_exch req) (req_symbol req) ''sell''
                               qty (req_high_price req) sell_params
      in (buy_order, sell_order, st2))"

text \<open>Lines 183 to 195: register the trade and start its monitor when both orders
  exist, otherwise cancel the orders that do.\<close>

definition settle_entry ::
  "venue_env \<Rightarrow> order_manager \<Rightarrow> open_request \<Rightarrow> real \<Rightarrow> order option \<Rightarrow> order option
     \<Rightarrow> order_manager" where
  "settle_entry env st req qty buy_order sell_order =
     (case (buy_order, sell_order) of
        (Some b, Some s) \<Rightarrow>
          (let trade_id = make_trade_id (req_symbol req) (unix_time env) in
           st\<lparr>active_trades := AList.update trade_id
                  \<lparr>symbol = req_symbol req, entry_spread = req_spread req,
                   low_exchange = req_low_exch req, high_exchange = req_high_exch req,
                   entry_buy_price = price b, entry_sell_price = price s,
                   quantity = qty, status = ''open'', entry_time = utc_now env,
                   max_spread_seen = req_spread req, net_pnl = None\<rparr>
                  (active_trades st),
              monitor_tasks := monitor_tasks st @ [trade_id]\<rparr>)
      | _ \<Rightarrow>
          (let st1 = (case buy_order of
                        Some b \<Rightarrow> snd (cancel_order env st (req_low_exch req) (order_id b)
                                         (req_symbol req))
                      | None \<Rightarrow> st)
           in (case sell_order of
                 Some s \<Rightarrow> snd (cancel_order env st1 (req_high_exch req) (order_id s)
                                  (req_symbol req))
               | None \<Rightarrow> st1)))"

text \<open>\<^verbatim>\<open>open_arbitrage\<close> from its first \<^verbatim>\<open>await\<close> to its end, on the manager as it is when the
  coroutine resumes.\<close>

definition open_arbitrage_resume ::
  "venue_env \<Rightarrow> order_manager \<Rightarrow> open_request \<Rightarrow> py_error option \<times> order_manager" where
  "open_arbitrage_resume env st req =
     (case entry_quantity (get_market_details env st (req_low_exch req) (req_symbol req))
                          (get_market_details env st (req_high_exch req) (req_symbol req)) req of
        Return \<Rightarrow> (None, st)
      | Raise err \<Rightarrow> (Some err, st)
      | Continue qty \<Rightarrow>
          (let (buy_order, sell_order, st1) = submit_entry_orders env st req qty
           in (None, settle_entry env st1 req qty buy_order sell_order)))"

text \<open>\<^verbatim>\<open>open_arbitrage\<close> run without any other coroutine in between.\<close>

definition open_arbitrage ::
  "venue_env \<Rightarrow> order_manager \<Rightarrow> open_request \<Rightarrow> py_error option \<times> order_manager" where
  "open_arbitrage env st req =
     (if admission_refused st (req_symbol req) then (None, st)
      else open_arbitrage_resume env st req)"

text \<open>Signals are handled by tasks of one event loop (\<^verbatim>\<open>asyncio.create_task(callback(...))\<close>
  in the Telegram handler). A task runs alone until it awaits: \<open>Start\<close> is a signal's task
  running the guard and suspending in the first \<^verbatim>\<open>gather\<close>; \<open>Finish\<close> is the oldest
  suspended task resuming and running to its end, with the answers of the venues. The
  state is the manager and the queue of suspended calls.\<close>

datatype sched_event = Start open_request | Finish venue_env

fun sched_step ::
  "order_manager \<times> open_request list \<Rightarrow> sched_event \<Rightarrow> order_manager \<times> open_request list" where
  "sched_step (st, pending) (Start req) =
     (if admission_refused st (req_symbol req) then (st, pending)
      else (st, pending @ [req]))"
| "sched_step (st, pending) (Finish env) =
     (case pending of
        [] \<Rightarrow> (st, pending)
      | req # rest \<Rightarrow> (snd (open_arbitrage_resume env st req), rest))"

definition run_schedule ::
  "order_manager \<Rightarrow> sched_event list \<Rightarrow> order_manager \<times> open_request list" where
  "run_schedule st events = foldl sched_step (st, []) events"

text \<open>Assignment to a key of a trade dict that is held by reference: the model addresses
  the dict by its key in the registry.\<close>

definition set_status :: "order_manager \<Rightarrow> string \<Rightarrow> string \<Rightarrow> order_manager" where
  "set_status st ref new_status =
     st\<lparr>active_trades := map (\<lambda>(k, tr). if k = ref then (k, tr\<lparr>status := new_status\<rparr>)
                                       else (k, tr)) (active_trades st)\<rparr>"

text \<open>Line 206. \<open>low_px\<close> is the price on \<^verbatim>\<open>low_exchange\<close> (where the entry bought),
  \<open>high_px\<close> the price on \<^verbatim>\<open>high_exchange\<close> (where the entry sold).\<close>

definition current_spread :: "real \<Rightarrow> real \<Rightarrow> real" where
  "current_spread low_px high_px = (low_px - high_px) / high_px * 100"

text \<open>Lines 207 to 212: the close reason chosen on a tick with both prices, if any.
  (Line 204 skips a tick on which \<^verbatim>\<open>not low_px or not high_px\<close> holds, that is, on which a
  price is \<^verbatim>\<open>None\<close> or \<^verbatim>\<open>0.0\<close>.)\<close>

definition close_decision :: "trade \<Rightarrow> real \<Rightarrow> real \<Rightarrow> real \<Rightarrow> string option" where
  "close_decision tr low_px high_px utcnow =
     (let spread_now = current_spread low_px high_px;
          duration = utcnow - entry_time tr
      in if duration > MAX_HOLD_TIME then Some ''timeout''
         else if spread_now < CLOSE_SPREAD then Some ''spread_collapse''
         else if TRAILING_STOP_ENABLED \<and> spread_now < max_spread_seen tr * 0.5
           then Some ''trailing_stop''
         else None)"

text \<open>\<^verbatim>\<open>_calculate_and_record_pnl(trade, exit_sell_price, exit_buy_price)\<close>. The trade dict is
  passed by reference: \<open>ref\<close> is the registry key under which the model finds that dict
  and \<open>tr\<close> its content. The source function itself has no name \<^verbatim>\<open>trade_id\<close> in scope
  (it is neither a parameter, a local, a module global nor a builtin), so its last
  line, \<^verbatim>\<open>self.active_trades.pop(trade_id, None)\<close>, raises \<^verbatim>\<open>NameError\<close> after the updates
  above it have been made.\<close>

definition calculate_and_record_pnl ::
  "order_manager \<Rightarrow> string \<Rightarrow> trade \<Rightarrow> real \<Rightarrow> real \<Rightarrow> py_error option \<times> order_manager" where
  "calculate_and_record_pnl st ref tr exit_sell_price exit_buy_price =
     (let pnl_long = (exit_sell_price - entry_buy_price tr) * quantity tr;
          pnl_short = (entry_sell_price tr - exit_buy_price) * quantity tr;
          gross_pnl = pnl_long + pnl_short;
          commission = (entry_buy_price tr + entry_sell_price tr + exit_sell_price
                          + exit_buy_price) * quantity tr * 0.0007;
          net = gross_pnl - commission
      in (Some NameError,
          st\<lparr>daily_pnl := daily_pnl st + net,
             active_trades := map (\<lambda>(k, t). if k = ref
                                     then (k, t\<lparr>status := ''closed'', net_pnl := Some net\<rparr>)
                                     else (k, t)) (active_trades st)\<rparr>))"

text \<open>What \<^verbatim>\<open>close_arbitrage\<close> is answered: the two prices from
  \<^verbatim>\<open>price_fetcher.get_price\<close> and the venues' replies to the closing orders.\<close>

record close_env =
  sell_price_reply :: "real option"
  buy_price_reply :: "real option"
  venues :: venue_env

definition close_arbitrage ::
  "close_env \<Rightarrow> order_manager \<Rightarrow> string \<Rightarrow> string \<Rightarrow> py_error option \<times> order_manager" where
  "close_arbitrage env st trade_id reason =
     (case map_of (active_trades st) trade_id of
        None \<Rightarrow> (None, st)
      | Some tr \<Rightarrow>
          if status tr \<noteq> ''open'' then (None, st)
          else
            (let st1 = set_status st trade_id ''closing'' in
             case (sell_price_reply env, buy_price_reply env) of
               (Some sell_price, Some buy_price) \<Rightarrow>
                 if sell_price = 0 \<or> buy_price = 0
                 then (None, set_status st1 trade_id ''error_closing'')
                 else
                   (let sell_params = (if low_exchange tr = ''mexc'' then Some ''long'' else None);
                        buy_params = (if high_exchange tr = ''mexc'' then Some ''short'' else None);
                        (sell_order, st2) = create_order (venues env) st1 (low_exchange tr)
                                              (symbol tr) ''sell'' (quantity tr) sell_price
                                              sell_params;
                        (buy_order, st3) = create_order (venues env) st2 (high_exchange tr)
                                             (symbol tr) ''buy'' (quantity tr) buy_price
                                             buy_params
                    in case (sell_order, buy_order) of
                         (Some so, Some bo) \<Rightarrow>
                           calculate_and_record_pnl st3 trade_id (tr\<lparr>status := ''closing''\<rparr>)
                             (price so) (price bo)
                       | _ \<Rightarrow> (None, set_status st3 trade_id ''error_closing''))
             | _ \<Rightarrow> (None, set_status st1 trade_id ''error_closing'')))"

text \<open>One pass of the loop of \<^verbatim>\<open>monitor_trade\<close> observes, after its five second sleep,
  the two prices and the UTC time, and the replies to a close started in that pass. The
  source holds the trade dict it fetched at the start; the model reads the same dict
  through its key at each pass.\<close>

record tick_obs =
  low_px_reply :: "real option"
  high_px_reply :: "real option"
  utcnow_reply :: real
  closing :: close_env

text \<open>Lines 202 to 212 for one pass: the value of \<^verbatim>\<open>close_reason\<close> that line 214 tests,
  logs and hands to \<^verbatim>\<open>close_arbitrage\<close>. It is \<^const>\<open>None\<close> when no exit predicate holds, and
  also when line 204 skips the pass because a price is \<^verbatim>\<open>None\<close> or \<^verbatim>\<open>0.0\<close>: then no predicate
  is evaluated.\<close>

definition tick_close_reason :: "trade \<Rightarrow> tick_obs \<Rightarrow> string option" where
  "tick_close_reason tr ob =
     (case (low_px_reply ob, high_px_reply ob) of
        (Some low_px, Some high_px) \<Rightarrow>
          if low_px = 0 \<or> high_px = 0 then None
          else close_decision tr low_px high_px (utcnow_reply ob)
      | _ \<Rightarrow> None)"

text \<open>How a task stands after the observed passes: it returned, it ended with an
  exception, or it is still in its loop.\<close>

datatype task_outcome = Returned | Raised py_error | StillRunning

fun monitor_loop ::
  "order_manager \<Rightarrow> string \<Rightarrow> tick_obs list \<Rightarrow> task_outcome \<times> order_manager" where
  "monitor_loop st trade_id obs =
     (case map_of (active_trades st) trade_id of
        None \<Rightarrow> (Returned, st)
      | Some tr \<Rightarrow>
          if status tr \<noteq> ''open'' then (Returned, st)
          else
            (case obs of
               [] \<Rightarrow> (StillRunning, st)
             | ob # rest \<Rightarrow>
                 (case (low_px_reply ob, high_px_reply ob) of
                    (Some low_px, Some high_px) \<Rightarrow>
                      if low_px = 0 \<or> high_px = 0 then monitor_loop st trade_id rest
                      else
                        (case close_decision tr low_px high_px (utcnow_reply ob) of
                           None \<Rightarrow> monitor_loop st trade_id rest
                         | Some reason \<Rightarrow>
                             (case close_arbitrage (closing ob) st trade_id reason of
                                (Some err, st') \<Rightarrow> (Raised err, st')
                              | (None, st') \<Rightarrow> (Returned, st')))
                  | _ \<Rightarrow> monitor_loop st trade_id rest)))"

declare monitor_loop.simps [simp del]

definition monitor_trade ::
  "order_manager \<Rightarrow> string \<Rightarrow> tick_obs list \<Rightarrow> task_outcome \<times> order_manager" where
  "monitor_trade st trade_id obs =
     (case map_of (active_trades st) trade_id of
        None \<Rightarrow> (Returned, st)
      | Some tr \<Rightarrow> monitor_loop st trade_id obs)"

text \<open>The P&L rule in the words of the specification, with the taker fee as a
  parameter, for comparison with \<^const>\<open>calculate_and_record_pnl\<close>.\<close>

definition spec_net :: "real \<Rightarrow> real \<Rightarrow> real \<Rightarrow> real \<Rightarrow> real \<Rightarrow> real \<Rightarrow> real" where
  "spec_net takerFee entryLong entryShort exitLong exitShort qty =
     (let grossLong = (exitLong - entryLong) * qty;
          grossShort = (entryShort - exitShort) * qty;
          fees = qty * (entryLong + entryShort + exitLong + exitShort) * takerFee
      in grossLong + grossShort - fees)"

text \<open>The current spread in the words of the specification.\<close>

definition spec_current_spread :: "real \<Rightarrow> real \<Rightarrow> real" where
  "spec_current_spread longPx shortPx = (shortPx - longPx) / longPx * 100"

section \<open>Scenario values\<close>

text \<open>The values of the specification's end-to-end scenarios, on two of the configured
  exchanges: a signal with spread 5 %, long at 1.00 on \<^verbatim>\<open>bingx\<close>, short at 1.05 on \<^verbatim>\<open>mexc\<close>;
  venues on which every market has minimum cost 1 and minimum amount 2 and every limit
  order is accepted at its price; the trade this opens; and a tick on which the prices
  have moved to 1.04 and 1.042.\<close>

definition signal_for :: "string \<Rightarrow> open_request" where
  "signal_for smb =
     \<lparr>req_symbol = smb, req_spread = 5, req_low_exch = ''bingx'', req_high_exch = ''mexc'',
      req_low_price = 1, req_high_price = 1.05\<rparr>"

definition accepting_venues :: venue_env where
  "accepting_venues =
     \<lparr>market_reply = (\<lambda>ex smb. Some \<lparr>cost_min = Some 1, amount_min = Some 2\<rparr>),
      create_reply = (\<lambda>ex smb side qty px. Some \<lparr>order_id = ''id-'' @ side, price = px\<rparr>),
      cancel_raises = (\<lambda>ex oid. False),
      unix_time = 1700000000, utc_now = 1700000000\<rparr>"

text \<open>The same venues, except that \<^verbatim>\<open>mexc\<close> refuses every order.\<close>

definition one_leg_venues :: venue_env where
  "one_leg_venues =
     accepting_venues\<lparr>create_reply :=
        (\<lambda>ex smb side qty px. if ex = ''mexc'' then None
                                else Some \<lparr>order_id = ''id-'' @ side, price = px\<rparr>)\<rparr>"

definition empty_manager :: order_manager where
  "empty_manager =
     \<lparr>exchanges = [''bingx'', ''mexc''], active_trades = [], daily_pnl = 0,
      requests = [], monitor_tasks = []\<rparr>"

definition scenario_trade :: trade where
  "scenario_trade =
     \<lparr>symbol = ''FOO-USDT'', entry_spread = 5, low_exchange = ''bingx'',
      high_exchange = ''mexc'', entry_buy_price = 1, entry_sell_price = 1.05, quantity = 2,
      status = ''open'', entry_time = 1700000000, max_spread_seen = 5, net_pnl = None\<rparr>"

definition scenario_manager :: order_manager where
  "scenario_manager =
     \<lparr>exchanges = [''bingx'', ''mexc''],
      active_trades = [(''FOO-1700000000'', scenario_trade)], daily_pnl = 0,
      requests = [], monitor_tasks = [''FOO-1700000000'']\<rparr>"

definition scenario_close :: close_env where
  "scenario_close =
     \<lparr>sell_price_reply = Some 1.04, buy_price_reply = Some 1.042, venues = accepting_venues\<rparr>"

definition scenario_tick :: tick_obs where
  "scenario_tick =
     \<lparr>low_px_reply = Some 1.04, high_px_reply = Some 1.042, utcnow_reply = 1700000025,
      closing = scenario_close\<rparr>"

text \<open>The first tick of that trade, five seconds after the entry, with the prices where
  they were at the entry; and a tick long after the hold time on which the long venue's
  price is missing.\<close>

definition first_tick :: tick_obs where
  "first_tick =
     \<lparr>low_px_reply = Some 1, high_px_reply = Some 1.05, utcnow_reply = 1700000005,
      closing = \<lparr>sell_price_reply = Some 1, buy_price_reply = Some 1.05,
                 venues = accepting_venues\<rparr>\<rparr>"


section \<open>Properties of the watch loop\<close>

lemma watch_step_bounds:
  assumes "1 \<le> retry_delay s" "retry_delay s \<le> 8" "\<forall>d\<in>set (sleeps s). 1 \<le> d \<and> d \<le> 8"
  shows "1 \<le> retry_delay (watch_step e y s out) \<and> retry_delay (watch_step e y s out) \<le> 8
         \<and> (\<forall>d\<in>set (sleeps (watch_step e y s out)). 1 \<le> d \<and> d \<le> 8)"
  using assms by (cases out) auto

lemma watch_fold_bounds:
  assumes "1 \<le> retry_delay s" "retry_delay s \<le> 8" "\<forall>d\<in>set (sleeps s). 1 \<le> d \<and> d \<le> 8"
  shows "1 \<le> retry_delay (foldl (watch_step e y) s outs)
         \<and> retry_delay (foldl (watch_step e y) s outs) \<le> 8
         \<and> (\<forall>d\<in>set (sleeps (foldl (watch_step e y) s outs)). 1 \<le> d \<and> d \<le> 8)"
  using assms
proof (induction outs arbitrary: s)
  case Nil
  then show ?case by simp
next
  case (Cons out outs)
  have step: "1 \<le> retry_delay (watch_step e y s out) \<and> retry_delay (watch_step e y s out) \<le> 8
         \<and> (\<forall>d\<in>set (sleeps (watch_step e y s out)). 1 \<le> d \<and> d \<le> 8)"
    using Cons.prems by (rule watch_step_bounds)
  show ?case
    using Cons.IH [of "watch_step e y s out"] step by simp
qed

text \<open>
  C8. In a watch loop, a pass that fails (with a transient error or any other exception)
  sleeps for the current retry delay and then sets the delay to
  \<open>min (2 * delay) 8\<close>; a pass in which \<^verbatim>\<open>watch_ticker\<close> returns sets the delay to 1
  and does not sleep; hence no back-off sleep of the loop, whatever the sequence of
  outcomes, is longer than 8 seconds.
\<close>

theorem watch_loop_backoff_capped:
  "(out \<in> {TransientFailure, OtherFailure} \<longrightarrow>
      sleeps (watch_step e y s out) = sleeps s @ [retry_delay s]
      \<and> retry_delay (watch_step e y s out) = min (retry_delay s * 2) 8)
   \<and> retry_delay (watch_step e y s (Ticker lastp)) = 1
   \<and> sleeps (watch_step e y s (Ticker lastp)) = sleeps s
   \<and> (\<forall>d \<in> set (sleeps (watch_ticker_loop e y prices outs)). 1 \<le> d \<and> d \<le> 8)"
proof -
  have "\<forall>d \<in> set (sleeps (watch_ticker_loop e y prices outs)). 1 \<le> d \<and> d \<le> 8"
    unfolding watch_ticker_loop_def
    using watch_fold_bounds [of "\<lparr>cache = prices, retry_delay = 1, sleeps = []\<rparr>" e y outs]
    by simp
  then show ?thesis by auto
qed

theorem watch_loop_backoff_capped_witness:
  "sleeps (watch_ticker_loop ''bybit'' ''FOO-USDT'' Map.empty
      [TransientFailure, OtherFailure, TransientFailure, TransientFailure, TransientFailure,
       Ticker (Some 1), TransientFailure]) = [1, 2, 4, 8, 8, 1]
   \<and> sleeps (watch_step ''bybit'' ''FOO-USDT''
        \<lparr>cache = Map.empty, retry_delay = 4, sleeps = [1, 2]\<rparr> TransientFailure) = [1, 2, 4]
   \<and> retry_delay (watch_step ''bybit'' ''FOO-USDT''
        \<lparr>cache = Map.empty, retry_delay = 8, sleeps = []\<rparr> TransientFailure) = 8"
proof -
  have run: "sleeps (watch_ticker_loop ''bybit'' ''FOO-USDT'' Map.empty
      [TransientFailure, OtherFailure, TransientFailure, TransientFailure, TransientFailure,
       Ticker (Some 1), TransientFailure]) = [1, 2, 4, 8, 8, 1]"
    by (simp add: watch_ticker_loop_def)
  from watch_loop_backoff_capped [of TransientFailure "''bybit''" "''FOO-USDT''"
      "\<lparr>cache = Map.empty, retry_delay = 4, sleeps = [1, 2]\<rparr>" None Map.empty
      "[TransientFailure, OtherFailure, TransientFailure, TransientFailure, TransientFailure,
       Ticker (Some 1), TransientFailure]"]
    watch_loop_backoff_capped [of TransientFailure "''bybit''" "''FOO-USDT''"
      "\<lparr>cache = Map.empty, retry_delay = 8, sleeps = []\<rparr>" None Map.empty "[]"]
  show ?thesis using run by simp
qed

section \<open>Properties of the price cache and of get_price\<close>











section \<open>Properties of handle_signal\<close>

lemma min_key_in: "prices \<noteq> [] \<Longrightarrow> \<exists>k v. min_key prices = Some k \<and> map_of prices k = Some v"
proof (induction prices)
  case Nil
  then show ?case by simp
next
  case (Cons kv rest)
  obtain k v where kv: "kv = (k, v)" by (cases kv)
  show ?case
  proof (cases "rest = []")
    case True
    then show ?thesis by (simp add: kv)
  next
    case False
    then obtain k' v' where r: "min_key rest = Some k'" "map_of rest k' = Some v'"
      using Cons.IH by blast
    then show ?thesis by (auto simp: kv)
  qed
qed

lemma max_key_in: "prices \<noteq> [] \<Longrightarrow> \<exists>k v. max_key prices = Some k \<and> map_of prices k = Some v"
proof (induction prices)
  case Nil
  then show ?case by simp
next
  case (Cons kv rest)
  obtain k v where kv: "kv = (k, v)" by (cases kv)
  show ?case
  proof (cases "rest = []")
    case True
    then show ?thesis by (simp add: kv)
  next
    case False
    then obtain k' v' where r: "max_key rest = Some k'" "map_of rest k' = Some v'"
      using Cons.IH by blast
    then show ?thesis by (auto simp: kv)
  qed
qed

text \<open>
  C7. A parsed signal (its price dict is not empty) reaches the call of
  \<^verbatim>\<open>open_arbitrage\<close> if and only if \<open>MIN_SPREAD \<le> spread \<le> MAX_ALLOWED_SPREAD\<close>: a spread
  equal to \<open>MIN_SPREAD\<close> is admitted, one below it or above \<open>MAX_ALLOWED_SPREAD\<close> is
  rejected.
\<close>

theorem signal_admitted_iff_spread_in_range:
  assumes "prices \<noteq> []"
  shows "(handle_signal_request smb spread prices \<noteq> None)
         = (MIN_SPREAD \<le> spread \<and> spread \<le> MAX_ALLOWED_SPREAD)"
proof -
  obtain lo lv where lo: "min_key prices = Some lo" "map_of prices lo = Some lv"
    using min_key_in [OF assms] by blast
  obtain hi hv where hi: "max_key prices = Some hi" "map_of prices hi = Some hv"
    using max_key_in [OF assms] by blast
  show ?thesis
    by (auto simp: handle_signal_request_def lo hi SPREAD_SANITY_CHECK_def)
qed

theorem signal_admitted_iff_spread_in_range_witness:
  "[(''bingx'', 1), (''mexc'', 1.05::real)] \<noteq> []
   \<and> handle_signal_request ''FOO-USDT'' 3 [(''bingx'', 1), (''mexc'', 1.05)] \<noteq> None
   \<and> handle_signal_request ''FOO-USDT'' 2.99 [(''bingx'', 1), (''mexc'', 1.05)] = None
   \<and> handle_signal_request ''FOO-USDT'' 50.01 [(''bingx'', 1), (''mexc'', 1.05)] = None
   \<and> MIN_SPREAD = 3"
  using signal_admitted_iff_spread_in_range [of "[(''bingx'', 1), (''mexc'', 1.05)]" "''FOO-USDT''" 3]
    signal_admitted_iff_spread_in_range [of "[(''bingx'', 1), (''mexc'', 1.05)]" "''FOO-USDT''" "2.99"]
    signal_admitted_iff_spread_in_range [of "[(''bingx'', 1), (''mexc'', 1.05)]" "''FOO-USDT''" "50.01"]
  by (simp add: MIN_SPREAD_def MAX_ALLOWED_SPREAD_def)

section \<open>Properties of the order manager\<close>

lemma map_of_map_ref:
  "map_of (map (\<lambda>(k, t). if k = ref then (k, g t) else (k, t)) xs) k'
     = (if k' = ref then map_option g (map_of xs k') else map_of xs k')"
  by (induction xs) auto

lemma map_of_set_status:
  "map_of (active_trades (set_status st ref s)) k
     = (if k = ref then map_option (\<lambda>t. t\<lparr>status := s\<rparr>) (map_of (active_trades st) k)
        else map_of (active_trades st) k)"
  by (simp add: set_status_def map_of_map_ref)

lemma set_status_fields [simp]:
  "daily_pnl (set_status st ref s) = daily_pnl st"
  "exchanges (set_status st ref s) = exchanges st"
  "requests (set_status st ref s) = requests st"
  "monitor_tasks (set_status st ref s) = monitor_tasks st"
  "length (active_trades (set_status st ref s)) = length (active_trades st)"
  "map fst (active_trades (set_status st ref s)) = map fst (active_trades st)"
  by (auto simp: set_status_def split: prod.splits)

lemma create_order_fields [simp]:
  "daily_pnl (snd (create_order env st ex smb side qty px params)) = daily_pnl st"
  "exchanges (snd (create_order env st ex smb side qty px params)) = exchanges st"
  "active_trades (snd (create_order env st ex smb side qty px params)) = active_trades st"
  "monitor_tasks (snd (create_order env st ex smb side qty px params)) = monitor_tasks st"
  by (simp_all add: create_order_def)

lemma create_order_Some:
  "fst (create_order env st ex smb side qty px params) = Some ord \<Longrightarrow>
     ex \<in> set (exchanges st) \<and> create_reply env ex smb side qty px = Some ord
     \<and> requests (snd (create_order env st ex smb side qty px params))
         = requests st @ [CreateOrder ex smb side qty px params]"
  by (auto simp: create_order_def split: if_splits)

lemma cancel_order_fields [simp]:
  "daily_pnl (snd (cancel_order env st ex oid smb)) = daily_pnl st"
  "exchanges (snd (cancel_order env st ex oid smb)) = exchanges st"
  "active_trades (snd (cancel_order env st ex oid smb)) = active_trades st"
  "monitor_tasks (snd (cancel_order env st ex oid smb)) = monitor_tasks st"
  by (simp_all add: cancel_order_def)

lemma cancel_order_requests:
  "ex \<in> set (exchanges st) \<Longrightarrow>
     requests (snd (cancel_order env st ex oid smb)) = requests st @ [CancelOrder ex oid smb]"
  by (simp add: cancel_order_def)

lemma submit_entry_orders_fields:
  assumes "submit_entry_orders env st req qty = (buy_order, sell_order, st1)"
  shows "active_trades st1 = active_trades st" "daily_pnl st1 = daily_pnl st"
    "monitor_tasks st1 = monitor_tasks st" "exchanges st1 = exchanges st"
    "buy_order \<noteq> None \<Longrightarrow> req_low_exch req \<in> set (exchanges st)"
    "sell_order \<noteq> None \<Longrightarrow> req_high_exch req \<in> set (exchanges st)"
  using assms
  by (auto simp: submit_entry_orders_def Let_def create_order_def split: prod.splits if_splits)


lemma monitor_tick:
  assumes "map_of (active_trades st) tid = Some tr" "status tr = ''open''"
    "low_px_reply ob = Some l" "l \<noteq> 0" "high_px_reply ob = Some h" "h \<noteq> 0"
  shows "monitor_loop st tid (ob # rest) =
     (case close_decision tr l h (utcnow_reply ob) of
        None \<Rightarrow> monitor_loop st tid rest
      | Some reason \<Rightarrow> (case close_arbitrage (closing ob) st tid reason of
                          (Some err, st') \<Rightarrow> (Raised err, st')
                        | (None, st') \<Rightarrow> (Returned, st')))"
  using assms by (subst monitor_loop.simps) simp

lemma close_arbitrage_both_orders:
  assumes tr: "map_of (active_trades st) tid = Some tr" "status tr = ''open''"
    and px: "sell_price_reply env = Some sp" "sp \<noteq> 0" "buy_price_reply env = Some bp" "bp \<noteq> 0"
    and ex: "low_exchange tr \<in> set (exchanges st)" "high_exchange tr \<in> set (exchanges st)"
    and so: "create_reply (venues env) (low_exchange tr) (symbol tr) ''sell'' (quantity tr) sp = Some so"
    and bo: "create_reply (venues env) (high_exchange tr) (symbol tr) ''buy'' (quantity tr) bp = Some bo"
  shows "close_arbitrage env st tid reason =
     calculate_and_record_pnl
       ((set_status st tid ''closing'')
          \<lparr>requests := requests st @
             [CreateOrder (low_exchange tr) (symbol tr) ''sell'' (quantity tr) sp
                (if low_exchange tr = ''mexc'' then Some ''long'' else None),
              CreateOrder (high_exchange tr) (symbol tr) ''buy'' (quantity tr) bp
                (if high_exchange tr = ''mexc'' then Some ''short'' else None)]\<rparr>)
       tid (tr\<lparr>status := ''closing''\<rparr>) (price so) (price bo)"
  using assms
  by (simp add: close_arbitrage_def Let_def create_order_def)


text \<open>
  C1 (as the code has it). When \<^verbatim>\<open>_calculate_and_record_pnl\<close> marks a trade closed, the
  net P&L it records in the trade and adds to the daily P&L is
  \<open>grossLong + grossShort - fees\<close> with
  \<open>fees = qty * (entryLong + entryShort + exitLong + exitShort) * 0.0007\<close>: the fee rate
  is the constant 0.0007 for every venue, not a configured per-venue rate.
\<close>

theorem recorded_net_pnl_fixed_rate:
  assumes "map_of (active_trades st) ref = Some tr"
  shows "map_of (active_trades (snd (calculate_and_record_pnl st ref tr exit_sell exit_buy))) ref
           = Some (tr\<lparr>status := ''closed'',
                      net_pnl := Some (spec_net 0.0007 (entry_buy_price tr) (entry_sell_price tr)
                                         exit_sell exit_buy (quantity tr))\<rparr>)
         \<and> daily_pnl (snd (calculate_and_record_pnl st ref tr exit_sell exit_buy))
           = daily_pnl st + spec_net 0.0007 (entry_buy_price tr) (entry_sell_price tr)
                                         exit_sell exit_buy (quantity tr)"
  using assms
  by (simp add: calculate_and_record_pnl_def spec_net_def Let_def map_of_map_ref algebra_simps)

theorem recorded_net_pnl_fixed_rate_witness:
  "map_of (active_trades scenario_manager) ''FOO-1700000000'' = Some scenario_trade
   \<and> map_of (active_trades (snd (calculate_and_record_pnl scenario_manager ''FOO-1700000000''
               scenario_trade 1.04 1.042))) ''FOO-1700000000''
       = Some (scenario_trade\<lparr>status := ''closed'', net_pnl := Some 0.0902152\<rparr>)
   \<and> daily_pnl (snd (calculate_and_record_pnl scenario_manager ''FOO-1700000000''
               scenario_trade 1.04 1.042)) = 0.0902152"
proof -
  have h: "map_of (active_trades scenario_manager) ''FOO-1700000000'' = Some scenario_trade"
    by (simp add: scenario_manager_def)
  have v: "spec_net 0.0007 (entry_buy_price scenario_trade) (entry_sell_price scenario_trade)
             1.04 1.042 (quantity scenario_trade) = 0.0902152"
    by (simp add: spec_net_def scenario_trade_def)
  have d: "daily_pnl scenario_manager = 0"
    by (simp add: scenario_manager_def)
  show ?thesis
    using recorded_net_pnl_fixed_rate [OF h, of "1.04" "1.042"] h unfolding v d by simp
qed

text \<open>
  C1 as stated fails at the values of the specification's first scenario (entry 1.00 and
  1.05, exit 1.04 and 1.042, quantity 2): with the scenario's configured rate 0.0006 the
  rule gives 0.0910416, the code records 0.0902152.
\<close>

theorem configured_fee_counterexample:
  "net_pnl (scenario_trade\<lparr>status := ''closed'', net_pnl := Some 0.0902152\<rparr>) = Some 0.0902152
   \<and> map_of (active_trades (snd (calculate_and_record_pnl scenario_manager ''FOO-1700000000''
               scenario_trade 1.04 1.042))) ''FOO-1700000000''
       = Some (scenario_trade\<lparr>status := ''closed'', net_pnl := Some 0.0902152\<rparr>)
   \<and> spec_net 0.0006 1 1.05 1.04 1.042 2 = 0.0910416"
  by (simp add: calculate_and_record_pnl_def scenario_manager_def scenario_trade_def
        spec_net_def Let_def)

text \<open>
  C10. Whenever both closing orders succeed for an open trade, \<^verbatim>\<open>close_arbitrage\<close> ends
  with \<^verbatim>\<open>NameError\<close> after the net P&L has been added to the daily P&L and the trade has
  been marked closed with that P&L; the trade is still in the registry (its keys are
  unchanged), and a \<^verbatim>\<open>monitor_trade\<close> task that started the close ends with the same
  exception.
\<close>

theorem close_records_then_raises_name_error:
  assumes tr: "map_of (active_trades st) tid = Some tr" "status tr = ''open''"
    and px: "sell_price_reply env = Some sp" "sp \<noteq> 0" "buy_price_reply env = Some bp" "bp \<noteq> 0"
    and ex: "low_exchange tr \<in> set (exchanges st)" "high_exchange tr \<in> set (exchanges st)"
    and so: "create_reply (venues env) (low_exchange tr) (symbol tr) ''sell'' (quantity tr) sp = Some so"
    and bo: "create_reply (venues env) (high_exchange tr) (symbol tr) ''buy'' (quantity tr) bp = Some bo"
    and ob: "low_px_reply ob = Some l" "l \<noteq> 0" "high_px_reply ob = Some h" "h \<noteq> 0"
       "close_decision tr l h (utcnow_reply ob) = Some reason" "closing ob = env"
    and net: "net = (price so - entry_buy_price tr) * quantity tr
                 + (entry_sell_price tr - price bo) * quantity tr
                 - (entry_buy_price tr + entry_sell_price tr + price so + price bo)
                     * quantity tr * 0.0007"
  shows "fst (close_arbitrage env st tid reason) = Some NameError
     \<and> daily_pnl (snd (close_arbitrage env st tid reason)) = daily_pnl st + net
     \<and> map_of (active_trades (snd (close_arbitrage env st tid reason))) tid
          = Some (tr\<lparr>status := ''closed'', net_pnl := Some net\<rparr>)
     \<and> map fst (active_trades (snd (close_arbitrage env st tid reason)))
          = map fst (active_trades st)
     \<and> monitor_trade st tid (ob # rest)
          = (Raised NameError, snd (close_arbitrage env st tid reason))"
proof -
  have c: "close_arbitrage env st tid reason =
     calculate_and_record_pnl
       ((set_status st tid ''closing'')
          \<lparr>requests := requests st @
             [CreateOrder (low_exchange tr) (symbol tr) ''sell'' (quantity tr) sp
                (if low_exchange tr = ''mexc'' then Some ''long'' else None),
              CreateOrder (high_exchange tr) (symbol tr) ''buy'' (quantity tr) bp
                (if high_exchange tr = ''mexc'' then Some ''short'' else None)]\<rparr>)
       tid (tr\<lparr>status := ''closing''\<rparr>) (price so) (price bo)"
    using tr px ex so bo by (rule close_arbitrage_both_orders)
  have raised: "fst (close_arbitrage env st tid reason) = Some NameError"
    unfolding c by (simp add: calculate_and_record_pnl_def Let_def)
  have pnl: "daily_pnl (snd (close_arbitrage env st tid reason)) = daily_pnl st + net"
    unfolding c net by (simp add: calculate_and_record_pnl_def Let_def)
  have reg: "map_of (active_trades (snd (close_arbitrage env st tid reason))) tid
          = Some (tr\<lparr>status := ''closed'', net_pnl := Some net\<rparr>)"
    unfolding c net using tr(1)
    by (simp add: calculate_and_record_pnl_def Let_def map_of_map_ref set_status_def
          del: map_map)
  have keys: "map fst (active_trades (snd (close_arbitrage env st tid reason)))
          = map fst (active_trades st)"
    unfolding c
    by (auto simp: calculate_and_record_pnl_def Let_def set_status_def split: prod.splits)
  have "monitor_loop st tid (ob # rest) = (Raised NameError, snd (close_arbitrage env st tid reason))"
    using monitor_tick [OF tr ob(1-4), of rest] ob(5,6) raised
    by (cases "close_arbitrage env st tid reason") auto
  then have mon: "monitor_trade st tid (ob # rest)
          = (Raised NameError, snd (close_arbitrage env st tid reason))"
    using tr(1) by (simp add: monitor_trade_def)
  show ?thesis using raised pnl reg keys mon by simp
qed

theorem close_records_then_raises_name_error_witness:
  "close_decision scenario_trade 1.04 1.042 (utcnow_reply scenario_tick) = Some ''spread_collapse''
   \<and> fst (close_arbitrage scenario_close scenario_manager ''FOO-1700000000'' ''spread_collapse'')
       = Some NameError
   \<and> daily_pnl (snd (close_arbitrage scenario_close scenario_manager ''FOO-1700000000''
                       ''spread_collapse'')) = 0.0902152
   \<and> map_of (active_trades (snd (close_arbitrage scenario_close scenario_manager
                       ''FOO-1700000000'' ''spread_collapse''))) ''FOO-1700000000''
       = Some (scenario_trade\<lparr>status := ''closed'', net_pnl := Some 0.0902152\<rparr>)
   \<and> fst (monitor_trade scenario_manager ''FOO-1700000000'' [scenario_tick]) = Raised NameError"
proof -
  have tr: "map_of (active_trades scenario_manager) ''FOO-1700000000'' = Some scenario_trade"
    "status scenario_trade = ''open''"
    by (simp_all add: scenario_manager_def scenario_trade_def)
  have px: "sell_price_reply scenario_close = Some 1.04" "(1.04::real) \<noteq> 0"
    "buy_price_reply scenario_close = Some 1.042" "(1.042::real) \<noteq> 0"
    by (simp_all add: scenario_close_def)
  have ex: "low_exchange scenario_trade \<in> set (exchanges scenario_manager)"
    "high_exchange scenario_trade \<in> set (exchanges scenario_manager)"
    by (simp_all add: scenario_manager_def scenario_trade_def)
  have so: "create_reply (venues scenario_close) (low_exchange scenario_trade)
      (symbol scenario_trade) ''sell'' (quantity scenario_trade) 1.04
        = Some \<lparr>order_id = ''id-sell'', price = 1.04\<rparr>"
    by (simp add: scenario_close_def accepting_venues_def)
  have bo: "create_reply (venues scenario_close) (high_exchange scenario_trade)
      (symbol scenario_trade) ''buy'' (quantity scenario_trade) 1.042
        = Some \<lparr>order_id = ''id-buy'', price = 1.042\<rparr>"
    by (simp add: scenario_close_def accepting_venues_def)
  have ob: "low_px_reply scenario_tick = Some 1.04" "high_px_reply scenario_tick = Some 1.042"
    "closing scenario_tick = scenario_close"
    by (simp_all add: scenario_tick_def)
  have dec: "close_decision scenario_trade 1.04 1.042 (utcnow_reply scenario_tick)
       = Some ''spread_collapse''"
    by (simp add: close_decision_def current_spread_def scenario_trade_def scenario_tick_def
          MAX_HOLD_TIME_def CLOSE_SPREAD_def Let_def)
  have net: "(0.0902152::real) =
      (price \<lparr>order_id = ''id-sell'', price = 1.04\<rparr> - entry_buy_price scenario_trade)
          * quantity scenario_trade
      + (entry_sell_price scenario_trade - price \<lparr>order_id = ''id-buy'', price = 1.042\<rparr>)
          * quantity scenario_trade
      - (entry_buy_price scenario_trade + entry_sell_price scenario_trade
          + price \<lparr>order_id = ''id-sell'', price = 1.04\<rparr>
          + price \<lparr>order_id = ''id-buy'', price = 1.042\<rparr>) * quantity scenario_trade * 0.0007"
    by (simp add: scenario_trade_def)
  have d: "daily_pnl scenario_manager = 0"
    by (simp add: scenario_manager_def)
  show ?thesis
    using close_records_then_raises_name_error
      [OF tr px ex so bo ob(1) px(2) ob(2) px(4) dec ob(3) net, of "[]"] dec d
    by simp
qed

text \<open>
  C3. When \<^verbatim>\<open>open_arbitrage\<close> has submitted the two entry orders and exactly one of them
  exists, it sends one cancellation, for the surviving order on its exchange, registers
  no trade, starts no monitor and leaves the daily P&L unchanged.
\<close>

theorem one_legged_entry_is_cancelled:
  assumes adm: "\<not> admission_refused st (req_symbol req)"
    and q: "entry_quantity (get_market_details env st (req_low_exch req) (req_symbol req))
              (get_market_details env st (req_high_exch req) (req_symbol req)) req = Continue qty"
    and sub: "submit_entry_orders env st req qty = (buy_order, sell_order, st1)"
    and one: "(buy_order = None) \<noteq> (sell_order = None)"
  shows "fst (open_arbitrage env st req) = None
     \<and> active_trades (snd (open_arbitrage env st req)) = active_trades st
     \<and> daily_pnl (snd (open_arbitrage env st req)) = daily_pnl st
     \<and> monitor_tasks (snd (open_arbitrage env st req)) = monitor_tasks st
     \<and> (\<forall>b. buy_order = Some b \<longrightarrow>
           requests (snd (open_arbitrage env st req))
             = requests st1 @ [CancelOrder (req_low_exch req) (order_id b) (req_symbol req)])
     \<and> (\<forall>s. sell_order = Some s \<longrightarrow>
           requests (snd (open_arbitrage env st req))
             = requests st1 @ [CancelOrder (req_high_exch req) (order_id s) (req_symbol req)])"
proof -
  have run: "open_arbitrage env st req = (None, settle_entry env st1 req qty buy_order sell_order)"
    using adm q sub by (simp add: open_arbitrage_def open_arbitrage_resume_def)
  note f = submit_entry_orders_fields [OF sub]
  show ?thesis
  proof (cases buy_order)
    case None
    then obtain s where s: "sell_order = Some s" using one by auto
    have "req_high_exch req \<in> set (exchanges st1)" using f(4,6) s by simp
    then show ?thesis
      unfolding run using None s f(1-3)
      by (simp add: settle_entry_def cancel_order_requests)
  next
    case (Some b)
    then have s: "sell_order = None" using one by auto
    have "req_low_exch req \<in> set (exchanges st1)" using f(4,5) Some by simp
    then show ?thesis
      unfolding run using Some s f(1-3)
      by (simp add: settle_entry_def cancel_order_requests)
  qed
qed

theorem one_legged_entry_is_cancelled_witness:
  "\<not> admission_refused empty_manager ''FOO-USDT''
   \<and> submit_entry_orders one_leg_venues empty_manager (signal_for ''FOO-USDT'') 2
       = (Some \<lparr>order_id = ''id-buy'', price = 1\<rparr>, None,
          empty_manager\<lparr>requests := [CreateOrder ''bingx'' ''FOO-USDT'' ''buy'' 2 1 None,
             CreateOrder ''mexc'' ''FOO-USDT'' ''sell'' 2 1.05 (Some ''short'')]\<rparr>)
   \<and> requests (snd (open_arbitrage one_leg_venues empty_manager (signal_for ''FOO-USDT'')))
       = [CreateOrder ''bingx'' ''FOO-USDT'' ''buy'' 2 1 None,
          CreateOrder ''mexc'' ''FOO-USDT'' ''sell'' 2 1.05 (Some ''short''),
          CancelOrder ''bingx'' ''id-buy'' ''FOO-USDT'']
   \<and> active_trades (snd (open_arbitrage one_leg_venues empty_manager (signal_for ''FOO-USDT''))) = []
   \<and> daily_pnl (snd (open_arbitrage one_leg_venues empty_manager (signal_for ''FOO-USDT''))) = 0"
proof -
  have adm: "\<not> admission_refused empty_manager (req_symbol (signal_for ''FOO-USDT''))"
    by (simp add: admission_refused_def empty_manager_def signal_for_def SYMBOL_BLACKLIST_def
          MAX_CONCURRENT_TRADES_def MAX_DAILY_LOSS_def)
  have q: "entry_quantity
      (get_market_details one_leg_venues empty_manager (req_low_exch (signal_for ''FOO-USDT''))
         (req_symbol (signal_for ''FOO-USDT'')))
      (get_market_details one_leg_venues empty_manager (req_high_exch (signal_for ''FOO-USDT''))
         (req_symbol (signal_for ''FOO-USDT''))) (signal_for ''FOO-USDT'') = Continue 2"
    by (simp add: entry_quantity_def get_market_details_def one_leg_venues_def
          accepting_venues_def empty_manager_def signal_for_def or_zero_def
          MAX_MIN_NOTIONAL_USD_def RISKY_SYMBOLS_def Let_def)
  have sub: "submit_entry_orders one_leg_venues empty_manager (signal_for ''FOO-USDT'') 2
       = (Some \<lparr>order_id = ''id-buy'', price = 1\<rparr>, None,
          empty_manager\<lparr>requests := [CreateOrder ''bingx'' ''FOO-USDT'' ''buy'' 2 1 None,
             CreateOrder ''mexc'' ''FOO-USDT'' ''sell'' 2 1.05 (Some ''short'')]\<rparr>)"
    by (simp add: submit_entry_orders_def create_order_def one_leg_venues_def
          accepting_venues_def empty_manager_def signal_for_def Let_def)
  have one: "(Some \<lparr>order_id = ''id-buy'', price = 1::real\<rparr> = None) \<noteq> ((None :: order option) = None)"
    by simp
  show ?thesis
    using one_legged_entry_is_cancelled [OF adm q sub one] adm sub
    by (simp add: empty_manager_def signal_for_def)
qed

lemma monitor_loop_tick:
  assumes "map_of (active_trades st) tid = Some tr" "status tr = ''open''"
  shows "monitor_loop st tid (ob # rest) =
     (case tick_close_reason tr ob of
        None \<Rightarrow> monitor_loop st tid rest
      | Some reason \<Rightarrow> (case close_arbitrage (closing ob) st tid reason of
                          (Some err, st') \<Rightarrow> (Raised err, st')
                        | (None, st') \<Rightarrow> (Returned, st')))"
  using assms
  by (subst monitor_loop.simps) (simp add: tick_close_reason_def split: option.splits)






section \<open>The current spread of the monitoring loop\<close>

text \<open>
  C2, at a failing input. A trade was entered long at 1.00 and short at 1.05, a spread of
  5 %. At its first tick, five seconds later, the live prices are unchanged: the spread
  \<open>(shortPx - longPx) / longPx * 100\<close> is still 5, far above \<open>CLOSE_SPREAD\<close>. Line 206
  computes \<open>(low_px - high_px) / high_px * 100\<close> instead, which is negative here and so
  below \<open>CLOSE_SPREAD\<close>: the close reason of the tick is the spread collapse, and the loop
  closes the trade (the same holds for prices 100 and 105).
\<close>

theorem first_tick_closes_unmoved_spread:
  "spec_current_spread 1 1.05 = 5
   \<and> \<not> spec_current_spread 1 1.05 \<le> CLOSE_SPREAD
   \<and> current_spread 1 1.05 = - (100 / 21)
   \<and> tick_close_reason scenario_trade first_tick = Some ''spread_collapse''
   \<and> map_of (active_trades (snd (monitor_trade scenario_manager ''FOO-1700000000'' [first_tick])))
        ''FOO-1700000000''
       = Some (scenario_trade\<lparr>status := ''closed'', net_pnl := Some (- 0.00574)\<rparr>)
   \<and> close_decision scenario_trade 100 105 1700000005 = Some ''spread_collapse''"
proof -
  have spreads: "spec_current_spread 1 1.05 = 5" "\<not> spec_current_spread 1 1.05 \<le> CLOSE_SPREAD"
    "current_spread 1 1.05 = - (100 / 21)"
    by (simp_all add: spec_current_spread_def current_spread_def CLOSE_SPREAD_def)
  have reason: "tick_close_reason scenario_trade first_tick = Some ''spread_collapse''"
    by (simp add: tick_close_reason_def first_tick_def close_decision_def current_spread_def
          scenario_trade_def MAX_HOLD_TIME_def CLOSE_SPREAD_def Let_def)
  have tr: "map_of (active_trades scenario_manager) ''FOO-1700000000'' = Some scenario_trade"
    "status scenario_trade = ''open''"
    by (simp_all add: scenario_manager_def scenario_trade_def)
  have loop: "monitor_loop scenario_manager ''FOO-1700000000'' [first_tick] =
     (case close_arbitrage (closing first_tick) scenario_manager ''FOO-1700000000''
             ''spread_collapse'' of
        (Some err, st') \<Rightarrow> (Raised err, st')
      | (None, st') \<Rightarrow> (Returned, st'))"
    using monitor_loop_tick [OF tr, of first_tick "[]"] reason by simp
  have closed: "map_of (active_trades (snd (close_arbitrage (closing first_tick) scenario_manager
         ''FOO-1700000000'' ''spread_collapse''))) ''FOO-1700000000''
       = Some (scenario_trade\<lparr>status := ''closed'', net_pnl := Some (- 0.00574)\<rparr>)"
    by (simp add: close_arbitrage_def first_tick_def scenario_manager_def scenario_trade_def
          accepting_venues_def create_order_def calculate_and_record_pnl_def set_status_def
          Let_def)
  have "map_of (active_trades (snd (monitor_trade scenario_manager ''FOO-1700000000'' [first_tick])))
        ''FOO-1700000000''
       = Some (scenario_trade\<lparr>status := ''closed'', net_pnl := Some (- 0.00574)\<rparr>)"
    using closed tr(1) unfolding monitor_trade_def loop
    by (cases "close_arbitrage (closing first_tick) scenario_manager ''FOO-1700000000''
         ''spread_collapse''") (auto split: option.splits)
  moreover have "close_decision scenario_trade 100 105 1700000005 = Some ''spread_collapse''"
    by (simp add: close_decision_def current_spread_def scenario_trade_def MAX_HOLD_TIME_def
          CLOSE_SPREAD_def Let_def)
  ultimately show ?thesis using spreads reason by simp
qed

section \<open>The cap on active trades\<close>

text \<open>Run without interleaving, \<^verbatim>\<open>open_arbitrage\<close> refuses at the cap, sending nothing and
  registering nothing, and so keeps the registry within the cap.\<close>

lemma open_arbitrage_refuses_at_cap:
  "MAX_CONCURRENT_TRADES \<le> length (active_trades st) \<Longrightarrow> open_arbitrage env st req = (None, st)"
  by (simp add: open_arbitrage_def admission_refused_def)

lemma length_alist_update:
  "length (AList.update k v al) \<le> Suc (length al)"
  by (induction al) auto

lemma settle_entry_length:
  "length (active_trades (settle_entry env st req qty b s)) \<le> Suc (length (active_trades st))"
  by (cases b; cases s) (simp_all add: settle_entry_def Let_def length_alist_update)

lemma open_arbitrage_resume_length:
  "length (active_trades (snd (open_arbitrage_resume env st req))) \<le> Suc (length (active_trades st))"
proof (cases "entry_quantity (get_market_details env st (req_low_exch req) (req_symbol req))
              (get_market_details env st (req_high_exch req) (req_symbol req)) req")
  case (Continue qty)
  obtain b s st1 where sub: "submit_entry_orders env st req qty = (b, s, st1)"
    by (cases "submit_entry_orders env st req qty") auto
  have "length (active_trades (settle_entry env st1 req qty b s)) \<le> Suc (length (active_trades st1))"
    by (rule settle_entry_length)
  then show ?thesis
    using Continue sub submit_entry_orders_fields(1) [OF sub]
    by (simp add: open_arbitrage_resume_def)
qed (simp_all add: open_arbitrage_resume_def)

lemma open_arbitrage_keeps_cap:
  assumes "length (active_trades st) \<le> MAX_CONCURRENT_TRADES"
  shows "length (active_trades (snd (open_arbitrage env st req))) \<le> MAX_CONCURRENT_TRADES"
proof (cases "admission_refused st (req_symbol req)")
  case True
  then show ?thesis using assms by (simp add: open_arbitrage_def)
next
  case False
  then have "length (active_trades st) < MAX_CONCURRENT_TRADES"
    by (simp add: admission_refused_def)
  then show ?thesis
    using open_arbitrage_resume_length [of env st req] False
    by (simp add: open_arbitrage_def)
qed

lemma str_nat_t: "str_nat 1700000000 = ''1700000000''"
  by (simp add: str_nat.simps)

lemma empty_manager_admits:
  "smb \<noteq> ''AIA'' \<Longrightarrow> \<not> admission_refused empty_manager (req_symbol (signal_for smb))"
  by (simp add: admission_refused_def SYMBOL_BLACKLIST_def MAX_CONCURRENT_TRADES_def
        MAX_DAILY_LOSS_def signal_for_def empty_manager_def)

lemma resume_accepting:
  assumes "exchanges st = [''bingx'', ''mexc'']" "map_of RISKY_SYMBOLS smb = None"
  shows "snd (open_arbitrage_resume accepting_venues st (signal_for smb)) =
     st\<lparr>requests := requests st @
            [CreateOrder ''bingx'' smb ''buy'' 2 1 None,
             CreateOrder ''mexc'' smb ''sell'' 2 1.05 (Some ''short'')],
        active_trades := AList.update (make_trade_id smb 1700000000)
           \<lparr>symbol = smb, entry_spread = 5, low_exchange = ''bingx'', high_exchange = ''mexc'',
            entry_buy_price = 1, entry_sell_price = 1.05, quantity = 2, status = ''open'',
            entry_time = 1700000000, max_spread_seen = 5, net_pnl = None\<rparr> (active_trades st),
        monitor_tasks := monitor_tasks st @ [make_trade_id smb 1700000000]\<rparr>"
  using assms
  by (simp add: open_arbitrage_resume_def entry_quantity_def get_market_details_def
       accepting_venues_def signal_for_def or_zero_def MAX_MIN_NOTIONAL_USD_def
       submit_entry_orders_def create_order_def settle_entry_def Let_def)


lemma trade_ids:
  "make_trade_id ''AAA-USDT'' 1700000000 = ''AAA-1700000000''"
  "make_trade_id ''BBB-USDT'' 1700000000 = ''BBB-1700000000''"
  "make_trade_id ''CCC-USDT'' 1700000000 = ''CCC-1700000000''"
  "make_trade_id ''DDD-USDT'' 1700000000 = ''DDD-1700000000''"
  by (simp_all add: make_trade_id_def str_nat_t)

text \<open>
  C4, at a failing input. The registry is empty and the cap is 3. Four signals for four
  symbols arrive before any of their \<^verbatim>\<open>open_arbitrage\<close> calls has resumed from its first
  \<^verbatim>\<open>await\<close>: each call passes the guard against the empty registry, and when the four
  calls resume, with every order accepted, all four trades are registered. The registry
  then holds four active trades, more than \<open>MAX_CONCURRENT_TRADES\<close>.
\<close>

theorem concurrent_signals_exceed_cap:
  "map fst (active_trades (fst (run_schedule empty_manager
      [Start (signal_for ''AAA-USDT''), Start (signal_for ''BBB-USDT''),
       Start (signal_for ''CCC-USDT''), Start (signal_for ''DDD-USDT''),
       Finish accepting_venues, Finish accepting_venues,
       Finish accepting_venues, Finish accepting_venues])))
     = [''AAA-1700000000'', ''BBB-1700000000'', ''CCC-1700000000'', ''DDD-1700000000'']
   \<and> MAX_CONCURRENT_TRADES = 3"
proof -
  have starts: "foldl sched_step (empty_manager, [])
      [Start (signal_for ''AAA-USDT''), Start (signal_for ''BBB-USDT''),
       Start (signal_for ''CCC-USDT''), Start (signal_for ''DDD-USDT'')]
     = (empty_manager, [signal_for ''AAA-USDT'', signal_for ''BBB-USDT'',
                        signal_for ''CCC-USDT'', signal_for ''DDD-USDT''])"
    by (simp add: empty_manager_admits)
  have risky: "map_of RISKY_SYMBOLS ''AAA-USDT'' = None" "map_of RISKY_SYMBOLS ''BBB-USDT'' = None"
    "map_of RISKY_SYMBOLS ''CCC-USDT'' = None" "map_of RISKY_SYMBOLS ''DDD-USDT'' = None"
    by (simp_all add: RISKY_SYMBOLS_def)
  define s1 where "s1 = snd (open_arbitrage_resume accepting_venues empty_manager (signal_for ''AAA-USDT''))"
  define s2 where "s2 = snd (open_arbitrage_resume accepting_venues s1 (signal_for ''BBB-USDT''))"
  define s3 where "s3 = snd (open_arbitrage_resume accepting_venues s2 (signal_for ''CCC-USDT''))"
  define s4 where "s4 = snd (open_arbitrage_resume accepting_venues s3 (signal_for ''DDD-USDT''))"
  have e0: "exchanges empty_manager = [''bingx'', ''mexc'']" by (simp add: empty_manager_def)
  have r1: "exchanges s1 = [''bingx'', ''mexc''] \<and> map fst (active_trades s1) = [''AAA-1700000000'']"
    unfolding s1_def resume_accepting [OF e0 risky(1)]
    by (simp add: trade_ids empty_manager_def)
  have r2: "exchanges s2 = [''bingx'', ''mexc'']
      \<and> map fst (active_trades s2) = [''AAA-1700000000'', ''BBB-1700000000'']"
    unfolding s2_def using r1 resume_accepting [of s1, OF _ risky(2)]
    by (cases "active_trades s1") (auto simp: trade_ids)
  have r3: "exchanges s3 = [''bingx'', ''mexc'']
      \<and> map fst (active_trades s3) = [''AAA-1700000000'', ''BBB-1700000000'', ''CCC-1700000000'']"
    unfolding s3_def using r2 resume_accepting [of s2, OF _ risky(3)]
    by (cases "active_trades s2"; cases "tl (active_trades s2)") (auto simp: trade_ids)
  have r4: "map fst (active_trades s4)
      = [''AAA-1700000000'', ''BBB-1700000000'', ''CCC-1700000000'', ''DDD-1700000000'']"
    unfolding s4_def using r3 resume_accepting [of s3, OF _ risky(4)]
    by (cases "active_trades s3"; cases "tl (active_trades s3)"; cases "tl (tl (active_trades s3))")
       (auto simp: trade_ids)
  have "run_schedule empty_manager
      [Start (signal_for ''AAA-USDT''), Start (signal_for ''BBB-USDT''),
       Start (signal_for ''CCC-USDT''), Start (signal_for ''DDD-USDT''),
       Finish accepting_venues, Finish accepting_venues,
       Finish accepting_venues, Finish accepting_venues] = (s4, [])"
    unfolding run_schedule_def
    using foldl_append [of sched_step "(empty_manager, [])"
       "[Start (signal_for ''AAA-USDT''), Start (signal_for ''BBB-USDT''),
         Start (signal_for ''CCC-USDT''), Start (signal_for ''DDD-USDT'')]"
       "[Finish accepting_venues, Finish accepting_venues,
         Finish accepting_venues, Finish accepting_venues]"]
    unfolding starts by (simp add: s1_def s2_def s3_def s4_def)
  then show ?thesis using r4 by (simp add: MAX_CONCURRENT_TRADES_def)
qed

section \<open>The signal parser on an alignment notice\<close>

text \<open>
  C9, at a failing input. The message below contains the word "aligned" together with a
  symbol, a spread token and a short and a long price. \<^verbatim>\<open>_parse_message\<close> has no test for
  the word: it returns the signal FOO-USDT with spread 5 and both prices, so the callback
  is invoked, and \<^verbatim>\<open>handle_signal\<close> passes it on to \<^verbatim>\<open>open_arbitrage\<close>.
\<close>

theorem aligned_message_is_parsed:
  "contains ''aligned'' (map lower_char
      ''#FOO | Spread: 5.00% | prices aligned in 5m | Short MEXC: $1.05 | Long BINGX: $1.00'')
   \<and> parse_message
      ''#FOO | Spread: 5.00% | prices aligned in 5m | Short MEXC: $1.05 | Long BINGX: $1.00''
     = Some (''FOO-USDT'', 5, [(''bingx'', 1), (''mexc'', 1.05)])
   \<and> message_request
      ''#FOO | Spread: 5.00% | prices aligned in 5m | Short MEXC: $1.05 | Long BINGX: $1.00''
     = Some \<lparr>req_symbol = ''FOO-USDT'', req_spread = 5, req_low_exch = ''bingx'',
             req_high_exch = ''mexc'', req_low_price = 1, req_high_price = 1.05\<rparr>"
proof -
  have word: "contains ''aligned'' (map lower_char
      ''#FOO | Spread: 5.00% | prices aligned in 5m | Short MEXC: $1.05 | Long BINGX: $1.00'')"
    by code_simp
  have parsed: "parse_message
      ''#FOO | Spread: 5.00% | prices aligned in 5m | Short MEXC: $1.05 | Long BINGX: $1.00''
     = Some (''FOO-USDT'', 5, [(''bingx'', 1), (''mexc'', 1.05)])"
    by code_simp
  have "handle_signal_request ''FOO-USDT'' 5 [(''bingx'', 1), (''mexc'', 1.05)]
     = Some \<lparr>req_symbol = ''FOO-USDT'', req_spread = 5, req_low_exch = ''bingx'',
             req_high_exch = ''mexc'', req_low_price = 1, req_high_price = 1.05\<rparr>"
    by (simp add: handle_signal_request_def MIN_SPREAD_def MAX_ALLOWED_SPREAD_def)
  then show ?thesis
    using word parsed by (simp add: message_request_def)
qed

end
